theory Spec2Isabelle
  imports Complex_Main
begin

section \<open>Spin the Match: a shallow embedding of \<^verbatim>\<open>src/App.tsx\<close>\<close>

text \<open>
  The component \<^verbatim>\<open>FootballPredictor\<close> keeps its state in React hooks and in the DOM node of
  the wheel. The embedding passes that state explicitly: every event handler of the source is
  a function from the state before the event to the state after it.

  JavaScript numbers are IEEE doubles. The state machine and the angle arithmetic idealise
  them as \<^typ>\<open>real\<close>; the bounds of a spin's target, which depend on rounding, are stated
  over a model of binary64 arithmetic. Strings are lists of UTF-16 code units.
\<close>

subsection \<open>JavaScript primitives\<close>

type_synonym js_string = "nat list"

text \<open>A literal of the source, as its code units (all literals of the source are ASCII).\<close>

definition str :: "string \<Rightarrow> js_string" where
  "str cs = map of_char cs"

text \<open>
  \<^verbatim>\<open>String.prototype.trim\<close> strips white space and line terminators from both ends:
  TAB, LF, VT, FF, CR, SP, NBSP, the Unicode space separators, LS, PS and the BOM.
\<close>

definition is_js_whitespace :: "nat \<Rightarrow> bool" where
  "is_js_whitespace c =
     (c = 9 \<or> c = 10 \<or> c = 11 \<or> c = 12 \<or> c = 13 \<or> c = 32 \<or> c = 160 \<or> c = 5760
      \<or> (8192 \<le> c \<and> c \<le> 8202) \<or> c = 8232 \<or> c = 8233 \<or> c = 8239 \<or> c = 8287
      \<or> c = 12288 \<or> c = 65279)"

definition trim :: "js_string \<Rightarrow> js_string" where
  "trim s = rev (dropWhile is_js_whitespace (rev (dropWhile is_js_whitespace s)))"

text \<open>
  The remainder operator \<^verbatim>\<open>a % b\<close> truncates the quotient towards zero, so the result has the
  sign of the dividend. The source only takes remainders by 360 and by the number of
  outcomes, which is 3.
\<close>

definition js_trunc :: "real \<Rightarrow> int" where
  "js_trunc x = (if x < 0 then \<lceil>x\<rceil> else \<lfloor>x\<rfloor>)"

definition js_rem :: "real \<Rightarrow> real \<Rightarrow> real" where
  "js_rem a b = a - b * of_int (js_trunc (a / b))"

definition Math_floor :: "real \<Rightarrow> real" where
  "Math_floor x = of_int \<lfloor>x\<rfloor>"

text \<open>
  Reading \<^verbatim>\<open>xs[i]\<close> with a number: an element when \<open>i\<close> is an integer within the array,
  \<^verbatim>\<open>undefined\<close> otherwise (here \<open>None\<close>, which also stands for \<^verbatim>\<open>null\<close>: the source only
  tests the winner for truthiness).
\<close>

definition js_index :: "'a list \<Rightarrow> real \<Rightarrow> 'a option" where
  "js_index xs i =
     (if 0 \<le> i \<and> i < real (length xs) \<and> i = of_int \<lfloor>i\<rfloor> then Some (xs ! nat \<lfloor>i\<rfloor>) else None)"

subsection \<open>Data model\<close>

record Team =
  name :: js_string
  color :: js_string

datatype outcome_type = T_team1 | T_team2 | T_draw

record Outcome =
  label :: js_string
  type :: outcome_type

text \<open>
  The closure \<^verbatim>\<open>handleDone\<close> that \<^verbatim>\<open>spin\<close> registers on the wheel for \<^verbatim>\<open>transitionend\<close>. It
  captures the target rotation of its spin and the \<^verbatim>\<open>outcomes\<close> array of the render in which
  the spin started.
\<close>

record done_closure =
  cl_targetRotation :: real
  cl_outcomes :: "Outcome list"

text \<open>
  The hooks of the component (\<open>team1\<close> to \<open>wheelSize\<close>), the wheel's DOM node (the angle of its
  inline \<^verbatim>\<open>transform\<close> and its \<^verbatim>\<open>transitionend\<close> listeners) and the number of
  \<^verbatim>\<open>setTimeout(() => setShowResult(true), 250)\<close> callbacks that have not run yet.
\<close>

record app_state =
  team1 :: Team
  team2 :: Team
  spinning :: bool
  rotation :: real
  winner :: "Outcome option"
  showResult :: bool
  wheelSize :: real
  wheel_transform :: real
  wheel_listeners :: "done_closure list"
  pending_timers :: nat

definition initial_state :: app_state where
  "initial_state =
     \<lparr>team1 = \<lparr>name = str ''Team 1'', color = str ''#4AA1F3''\<rparr>,
      team2 = \<lparr>name = str ''Team 2'', color = str ''#C8102E''\<rparr>,
      spinning = False, rotation = 0, winner = None, showResult = False, wheelSize = 380,
      wheel_transform = 0, wheel_listeners = [], pending_timers = 0\<rparr>"

subsection \<open>Geometry\<close>

definition clamp :: "real \<Rightarrow> real \<Rightarrow> real \<Rightarrow> real" where
  "clamp n mn mx = max mn (min mx n)"

text \<open>
  The \<^verbatim>\<open>ResizeObserver\<close> callback. Its argument is \<^verbatim>\<open>entries[0]?.contentRect?.width\<close>,
  \<open>None\<close> when that chain is \<^verbatim>\<open>undefined\<close>; \<^verbatim>\<open>?? 0\<close> turns a missing width into 0.
\<close>

definition resize_target :: "real option \<Rightarrow> real" where
  "resize_target width =
     (let w = (case width of None \<Rightarrow> 0 | Some v \<Rightarrow> v)
      in clamp (Math_floor (w * 0.98)) 320 640)"

definition on_resize :: "real option \<Rightarrow> app_state \<Rightarrow> app_state" where
  "on_resize width s = s\<lparr>wheelSize := resize_target width\<rparr>"

text \<open>The clamp as the specification words it, for comparison with the source's max/min.\<close>

definition spec_clamp :: "real \<Rightarrow> real \<Rightarrow> real \<Rightarrow> real" where
  "spec_clamp n lo hi = (if n < lo then lo else if hi < n then hi else n)"

subsection \<open>Segments and the spin button\<close>

definition outcomes :: "app_state \<Rightarrow> Outcome list" where
  "outcomes s =
     [\<lparr>label = name (team1 s), type = T_team1\<rparr>,
      \<lparr>label = str ''DRAW'', type = T_draw\<rparr>,
      \<lparr>label = name (team2 s), type = T_team2\<rparr>]"

definition disable :: "app_state \<Rightarrow> bool" where
  "disable s =
     (spinning s \<or>
      trim (name (team1 s)) = str '''' \<or>
      trim (name (team1 s)) = str ''Team 1'' \<or>
      trim (name (team2 s)) = str '''' \<or>
      trim (name (team2 s)) = str ''Team 2'')"

subsection \<open>The spin engine\<close>

text \<open>
  \<open>r1\<close> and \<open>r2\<close> are the two results of \<^verbatim>\<open>Math.random()\<close>, in the order of the calls.
  The three definitions below name the constants \<^verbatim>\<open>fullSpins\<close>, \<^verbatim>\<open>randomAngle\<close> and
  \<^verbatim>\<open>targetRotation\<close> of \<^verbatim>\<open>spin\<close>, over the reals; the same constants with the rounding
  of doubles follow under \<open>Binary64 arithmetic\<close>.
\<close>

definition fullSpins :: "real \<Rightarrow> real" where
  "fullSpins r1 = 6 + Math_floor (r1 * 3)"

definition randomAngle :: "real \<Rightarrow> real" where
  "randomAngle r2 = r2 * 360"

definition targetRotation :: "real \<Rightarrow> real \<Rightarrow> real \<Rightarrow> real" where
  "targetRotation rot r1 r2 = rot + (fullSpins r1 * 360) + randomAngle r2"

text \<open>
  \<^verbatim>\<open>spin\<close> returns at once while a spin is in progress. Otherwise it sets the three hooks,
  writes the target into the wheel's inline transform and registers a fresh \<^verbatim>\<open>handleDone\<close>.
  The wheel's ref is attached for as long as the component is mounted, so the branches for
  a missing node are not taken.
\<close>

definition spin :: "real \<Rightarrow> real \<Rightarrow> app_state \<Rightarrow> app_state" where
  "spin r1 r2 s =
     (if spinning s then s
      else
        let target = targetRotation (rotation s) r1 r2;
            handleDone = \<lparr>cl_targetRotation = target, cl_outcomes = outcomes s\<rparr>
        in s\<lparr>spinning := True, winner := None, showResult := False,
             wheel_transform := target,
             wheel_listeners := wheel_listeners s @ [handleDone]\<rparr>)"

text \<open>
  The body of \<^verbatim>\<open>handleDone\<close>. \<open>normalizedRotation\<close> and \<open>winningIndex\<close> are its constants of
  these names; \<^verbatim>\<open>segments\<close> is the length of the captured array, which always has three
  elements. The closure stores the target, the winner and the flag, schedules the reveal and
  removes itself from the wheel.
\<close>

definition normalizedRotation :: "real \<Rightarrow> real" where
  "normalizedRotation target = js_rem (js_rem target 360 + 360) 360"

definition winningIndex :: "Outcome list \<Rightarrow> real \<Rightarrow> real" where
  "winningIndex outs target =
     (let segments = real (length outs);
          segStep = 360 / segments
      in js_rem (Math_floor (js_rem (360 - normalizedRotation target) 360 / segStep)) segments)"

definition handleDone :: "done_closure \<Rightarrow> app_state \<Rightarrow> app_state" where
  "handleDone c s =
     s\<lparr>rotation := cl_targetRotation c,
       winner := js_index (cl_outcomes c) (winningIndex (cl_outcomes c) (cl_targetRotation c)),
       spinning := False,
       pending_timers := Suc (pending_timers s),
       wheel_listeners := remove1 c (wheel_listeners s)\<rparr>"

text \<open>The browser dispatches \<^verbatim>\<open>transitionend\<close> to the listeners registered at that moment.\<close>

definition on_transitionend :: "app_state \<Rightarrow> app_state" where
  "on_transitionend s = fold handleDone (wheel_listeners s) s"

text \<open>A pending reveal timer runs: \<^verbatim>\<open>setShowResult(true)\<close>. Timers are never cancelled.\<close>

definition on_timeout :: "app_state \<Rightarrow> app_state" where
  "on_timeout s =
     (if pending_timers s = 0 then s
      else s\<lparr>showResult := True, pending_timers := pending_timers s - 1\<rparr>)"

definition reset :: "app_state \<Rightarrow> app_state" where
  "reset s = s\<lparr>winner := None, showResult := False\<rparr>"

subsection \<open>The user interface as events\<close>

text \<open>
  The result modal is rendered under \<^verbatim>\<open>showResult && winner\<close>; its buttons exist only then.
  The backdrop, the cross and \<open>Close\<close> all run \<^verbatim>\<open>setShowResult(false)\<close> (\<open>ClickDismiss\<close>);
  \<open>SPIN AGAIN\<close> runs \<^verbatim>\<open>setShowResult(false); reset()\<close> and starts no spin.
  The spin button carries \<^verbatim>\<open>disabled={disable}\<close>, and a disabled button dispatches no click;
  \<^verbatim>\<open>spin\<close> has no other caller.
\<close>

definition modal_rendered :: "app_state \<Rightarrow> bool" where
  "modal_rendered s = (showResult s \<and> winner s \<noteq> None)"

datatype event =
    SetTeam1Name js_string
  | SetTeam1Color js_string
  | SetTeam2Name js_string
  | SetTeam2Color js_string
  | Resize "real option"
  | ClickSpin real real
  | TransitionEnd
  | Timeout
  | ClickDismiss
  | ClickSpinAgain

fun step :: "event \<Rightarrow> app_state \<Rightarrow> app_state" where
  "step (SetTeam1Name v) s = s\<lparr>team1 := (team1 s)\<lparr>name := v\<rparr>\<rparr>"
| "step (SetTeam1Color v) s = s\<lparr>team1 := (team1 s)\<lparr>color := v\<rparr>\<rparr>"
| "step (SetTeam2Name v) s = s\<lparr>team2 := (team2 s)\<lparr>name := v\<rparr>\<rparr>"
| "step (SetTeam2Color v) s = s\<lparr>team2 := (team2 s)\<lparr>color := v\<rparr>\<rparr>"
| "step (Resize width) s = on_resize width s"
| "step (ClickSpin r1 r2) s = (if disable s then s else spin r1 r2 s)"
| "step TransitionEnd s = on_transitionend s"
| "step Timeout s = on_timeout s"
| "step ClickDismiss s = (if modal_rendered s then s\<lparr>showResult := False\<rparr> else s)"
| "step ClickSpinAgain s = (if modal_rendered s then reset (s\<lparr>showResult := False\<rparr>) else s)"

definition run :: "event list \<Rightarrow> app_state \<Rightarrow> app_state" where
  "run evs s = fold step evs s"

subsection \<open>Names of the specification for parts of the source's expressions\<close>

text \<open>
  The angle under the fixed pointer, in the wheel's own frame: the sub-expression
  \<^verbatim>\<open>(360 - normalizedRotation) % 360\<close> of \<^verbatim>\<open>handleDone\<close>.
\<close>

definition effectiveAngle :: "real \<Rightarrow> real" where
  "effectiveAngle target = js_rem (360 - normalizedRotation target) 360"

text \<open>
  Where segment \<open>i\<close> starts on the wheel: the conic gradient paints outcome \<open>i\<close> from
  \<^verbatim>\<open>i * seg\<close> to \<^verbatim>\<open>(i + 1) * seg\<close> degrees, with \<^verbatim>\<open>seg = 360 / outcomes.length\<close>.
\<close>

definition segment_start :: "Outcome list \<Rightarrow> real \<Rightarrow> real" where
  "segment_start outs i = i * (360 / real (length outs))"


subsection \<open>States of the lifecycle and readiness of a name\<close>

text \<open>
  The specification's lifecycle states, read off the hooks: \<open>Resolved(revealed)\<close> is a
  finished spin whose outcome is stored and shown, \<open>Idle\<close> has no spin and no outcome.
\<close>

definition resolved_revealed :: "app_state \<Rightarrow> bool" where
  "resolved_revealed s = (\<not> spinning s \<and> winner s \<noteq> None \<and> showResult s)"

definition idle :: "app_state \<Rightarrow> bool" where
  "idle s = (\<not> spinning s \<and> winner s = None \<and> \<not> showResult s)"

text \<open>
  The specification's condition on an entity name: non-empty once trimmed, and not the
  placeholder default.
\<close>

definition name_ready :: "js_string \<Rightarrow> js_string \<Rightarrow> bool" where
  "name_ready n placeholder = (trim n \<noteq> [] \<and> trim n \<noteq> placeholder)"

text \<open>A state with a revealed result, reached by naming both teams and spinning once.\<close>

definition revealed_example :: app_state where
  "revealed_example =
     \<lparr>team1 = \<lparr>name = str ''Lions'', color = str ''#4AA1F3''\<rparr>,
      team2 = \<lparr>name = str ''Tigers'', color = str ''#C8102E''\<rparr>,
      spinning = False, rotation = 2610,
      winner = Some \<lparr>label = str ''Tigers'', type = T_team2\<rparr>,
      showResult = True, wheelSize = 380,
      wheel_transform = 2610, wheel_listeners = [], pending_timers = 0\<rparr>"

subsection \<open>Sequential spins\<close>





subsection \<open>The reveal timer\<close>

text \<open>
  A run of events in which the spin button is never clicked while a reveal timer scheduled
  by an earlier resolution is still pending, and the invariant such runs keep.
\<close>

fun reveal_awaited :: "event list \<Rightarrow> app_state \<Rightarrow> bool" where
  "reveal_awaited [] s = True"
| "reveal_awaited (e # es) s =
     ((case e of ClickSpin r1 r2 \<Rightarrow> pending_timers s = 0 | _ \<Rightarrow> True)
      \<and> reveal_awaited es (step e s))"

definition reveal_inv :: "app_state \<Rightarrow> bool" where
  "reveal_inv s =
     ((showResult s \<longrightarrow> winner s \<noteq> None \<and> \<not> spinning s \<and> pending_timers s = 0)
      \<and> (0 < pending_timers s \<longrightarrow> winner s \<noteq> None \<and> \<not> spinning s)
      \<and> pending_timers s \<le> 1
      \<and> (wheel_listeners s = []
          \<or> spinning s \<and> (\<exists>c. wheel_listeners s = [c] \<and> cl_outcomes c \<noteq> [])))"

subsection \<open>Binary64 arithmetic\<close>











section \<open>Geometry: the wheel size\<close>

lemma clamp_spec_clamp: "lo \<le> hi \<Longrightarrow> clamp n lo hi = spec_clamp n lo hi"
  by (simp add: clamp_def spec_clamp_def max_def min_def)

lemma clamp_bounds: "lo \<le> hi \<Longrightarrow> lo \<le> clamp n lo hi \<and> clamp n lo hi \<le> hi"
  by (simp add: clamp_def)

text \<open>
  C8. For every reported container width \<open>w\<close> the wheel size stored by the resize callback is
  \<open>clamp(floor(w * 0.98), 320, 640)\<close>, with the clamp read as the specification words it; it
  lies in \<open>[320, 640]\<close>; width 10000 gives 640, width 50 gives 320 and width 0 gives 320.
\<close>

theorem wheel_size_clamped:
  "wheelSize (on_resize (Some w) s) = spec_clamp (of_int \<lfloor>w * 0.98\<rfloor>) 320 640
   \<and> 320 \<le> wheelSize (on_resize (Some w) s) \<and> wheelSize (on_resize (Some w) s) \<le> 640
   \<and> wheelSize (on_resize (Some 10000) s) = 640
   \<and> wheelSize (on_resize (Some 50) s) = 320
   \<and> wheelSize (on_resize (Some 0) s) = 320"
proof -
  have eq: "wheelSize (on_resize (Some v) s) = clamp (of_int \<lfloor>v * 0.98\<rfloor>) 320 640" for v
    by (simp add: on_resize_def resize_target_def Math_floor_def)
  have a: "clamp (of_int \<lfloor>w * 0.98\<rfloor>) 320 640 = spec_clamp (of_int \<lfloor>w * 0.98\<rfloor>) 320 640"
    by (rule clamp_spec_clamp) simp
  have b: "320 \<le> clamp (of_int \<lfloor>w * 0.98\<rfloor>) 320 640 \<and> clamp (of_int \<lfloor>w * 0.98\<rfloor>) 320 640 \<le> 640"
    by (rule clamp_bounds) simp
  have c: "clamp (of_int \<lfloor>10000 * 0.98 :: real\<rfloor>) 320 640 = 640"
    by (simp add: clamp_def)
  have d: "clamp (of_int \<lfloor>50 * 0.98 :: real\<rfloor>) 320 640 = 320"
    by (simp add: clamp_def)
  have e: "clamp (of_int \<lfloor>0 * 0.98 :: real\<rfloor>) 320 640 = 320"
    by (simp add: clamp_def)
  show ?thesis
    using a b c d e by (simp only: eq)
qed

text \<open>
  C7 as stated fails: a report of width 0, of a negative width or of no width at all is not
  ignored. From the initial size 380 each of them stores 320.
\<close>

theorem resize_not_ignored_counterexample:
  "wheelSize initial_state = 380
   \<and> wheelSize (on_resize (Some 0) initial_state) = 320
   \<and> wheelSize (on_resize (Some (- 5)) initial_state) = 320
   \<and> wheelSize (on_resize None initial_state) = 320"
  by (simp add: on_resize_def resize_target_def clamp_def Math_floor_def initial_state_def)

text \<open>
  C7, as the code has it. A resize report whose width is zero or negative, or is missing, is
  handled like every other report: the wheel size is recomputed as
  \<open>clamp(floor(w * 0.98), 320, 640)\<close>, which for such a width is the minimum 320, and
  nothing else of the state changes.
\<close>

theorem resize_nonpositive_width:
  assumes "w \<le> 0"
  shows "on_resize (Some w) s = s\<lparr>wheelSize := 320\<rparr>
     \<and> on_resize None s = s\<lparr>wheelSize := 320\<rparr>
     \<and> wheelSize (on_resize (Some w) s) = clamp (Math_floor (w * 0.98)) 320 640"
proof -
  from assms have "w * 0.98 \<le> 0" by (simp add: mult_le_0_iff)
  then have "\<lfloor>w * 0.98\<rfloor> \<le> 0" by (simp add: floor_le_iff) 
  then have "real_of_int \<lfloor>w * 0.98\<rfloor> \<le> 0" by simp
  then have "clamp (Math_floor (w * 0.98)) 320 640 = 320"
    by (simp add: clamp_def Math_floor_def)
  then show ?thesis
    by (simp add: on_resize_def resize_target_def clamp_def Math_floor_def)
qed

theorem resize_nonpositive_width_witness:
  "(- 5 :: real) \<le> 0 \<and> on_resize (Some (- 5)) initial_state = initial_state\<lparr>wheelSize := 320\<rparr>
   \<and> wheelSize (on_resize (Some (- 5)) initial_state) \<noteq> wheelSize initial_state"
  using resize_nonpositive_width [of "- 5" initial_state]
  by (simp add: initial_state_def)

section \<open>The remainder operator and the winning index\<close>

lemma js_rem_360_nonneg:
  assumes "0 \<le> a"
  shows "js_rem a 360 = a - 360 * of_int \<lfloor>a / 360\<rfloor>"
  using assms by (simp add: js_rem_def js_trunc_def)

lemma js_rem_small: "0 \<le> a \<Longrightarrow> a < 360 \<Longrightarrow> js_rem a 360 = a"
proof -
  assume a: "0 \<le> a" "a < 360"
  then have "\<lfloor>a / 360\<rfloor> = 0" by (simp add: floor_eq_iff)
  with a show ?thesis by (simp add: js_rem_def js_trunc_def)
qed

lemma js_rem_second: "360 \<le> a \<Longrightarrow> a < 720 \<Longrightarrow> js_rem a 360 = a - 360"
proof -
  assume a: "360 \<le> a" "a < 720"
  then have "\<lfloor>a / 360\<rfloor> = 1" by (simp add: floor_eq_iff)
  with a show ?thesis by (simp add: js_rem_def js_trunc_def)
qed

lemma js_rem_neg: "a < 0 \<Longrightarrow> js_rem a 360 = a - 360 * of_int \<lceil>a / 360\<rceil>"
  by (simp add: js_rem_def js_trunc_def)

lemma js_rem_bounds: "- 360 < js_rem a 360 \<and> js_rem a 360 < 360"
proof (cases "a < 0")
  case True
  have "of_int \<lceil>a / 360\<rceil> - 1 < a / 360" "a / 360 \<le> of_int \<lceil>a / 360\<rceil>"
    by linarith+
  then show ?thesis unfolding js_rem_neg [OF True] by linarith
next
  case False
  then have nn: "0 \<le> a" by simp
  have "of_int \<lfloor>a / 360\<rfloor> \<le> a / 360" "a / 360 < of_int \<lfloor>a / 360\<rfloor> + 1"
    by linarith+
  then show ?thesis unfolding js_rem_360_nonneg [OF nn] by linarith
qed

lemma normalizedRotation_range: "0 \<le> normalizedRotation t \<and> normalizedRotation t < 360"
proof -
  let ?m = "js_rem t 360"
  have b: "- 360 < ?m" "?m < 360" using js_rem_bounds [of t] by simp_all
  show ?thesis
  proof (cases "?m < 0")
    case True
    with b have "js_rem (?m + 360) 360 = ?m + 360" by (intro js_rem_small) simp_all
    with True b show ?thesis by (simp add: normalizedRotation_def)
  next
    case False
    with b have "js_rem (?m + 360) 360 = ?m + 360 - 360" by (intro js_rem_second) simp_all
    with False b show ?thesis by (simp add: normalizedRotation_def)
  qed
qed

text \<open>The normalised rotation is the mathematical modulus of the target, in \<open>[0, 360)\<close>.\<close>

lemma normalizedRotation_floor_mod: "normalizedRotation t = t - 360 * of_int \<lfloor>t / 360\<rfloor>"
proof -
  let ?m = "js_rem t 360"
  let ?n = "normalizedRotation t"
  have r: "0 \<le> ?n" "?n < 360" using normalizedRotation_range [of t] by simp_all
  have b: "- 360 < ?m" "?m < 360" using js_rem_bounds [of t] by simp_all
  have "\<exists>k::int. ?n = t - 360 * of_int k"
  proof (cases "?m < 0")
    case True
    with b have "js_rem (?m + 360) 360 = ?m + 360" by (intro js_rem_small) simp_all
    then have "?n = t - 360 * of_int (js_trunc (t / 360) - 1)"
      by (simp add: normalizedRotation_def js_rem_def)
    then show ?thesis by blast
  next
    case False
    with b have "js_rem (?m + 360) 360 = ?m + 360 - 360" by (intro js_rem_second) simp_all
    then have "?n = t - 360 * of_int (js_trunc (t / 360))"
      by (simp add: normalizedRotation_def js_rem_def)
    then show ?thesis by blast
  qed
  then obtain k :: int where k: "?n = t - 360 * of_int k" by blast
  with r have "of_int k \<le> t / 360" "t / 360 < of_int k + 1" by simp_all
  then have "\<lfloor>t / 360\<rfloor> = k" by (simp add: floor_eq_iff)
  with k show ?thesis by simp
qed

lemma js_rem_id: "0 \<le> a \<Longrightarrow> a < b \<Longrightarrow> js_rem a b = a"
proof -
  assume a: "0 \<le> a" "a < b"
  then have "0 \<le> a / b" "a / b < 1" by simp_all
  then have "\<lfloor>a / b\<rfloor> = 0" by (simp add: floor_eq_iff)
  with \<open>0 \<le> a / b\<close> show ?thesis by (simp add: js_rem_def js_trunc_def)
qed

lemma effectiveAngle_eq:
  "effectiveAngle t = (if normalizedRotation t = 0 then 0 else 360 - normalizedRotation t)"
proof (cases "normalizedRotation t = 0")
  case True
  then show ?thesis by (simp add: effectiveAngle_def js_rem_def js_trunc_def)
next
  case False
  with normalizedRotation_range [of t]
  have "0 \<le> 360 - normalizedRotation t" "360 - normalizedRotation t < 360" by simp_all
  then have "js_rem (360 - normalizedRotation t) 360 = 360 - normalizedRotation t"
    by (rule js_rem_id)
  with False show ?thesis by (simp add: effectiveAngle_def)
qed

lemma effectiveAngle_range: "0 \<le> effectiveAngle t \<and> effectiveAngle t < 360"
  using normalizedRotation_range [of t] by (simp add: effectiveAngle_eq)

lemma winningIndex_floor:
  assumes "outs \<noteq> []"
  shows "winningIndex outs t = of_int \<lfloor>effectiveAngle t * real (length outs) / 360\<rfloor>"
    and "0 \<le> \<lfloor>effectiveAngle t * real (length outs) / 360\<rfloor>"
    and "\<lfloor>effectiveAngle t * real (length outs) / 360\<rfloor> < int (length outs)"
proof -
  let ?n = "real (length outs)"
  let ?x = "effectiveAngle t * ?n / 360"
  from assms have n: "0 < ?n" by simp
  have e: "0 \<le> effectiveAngle t" "effectiveAngle t < 360"
    using effectiveAngle_range [of t] by simp_all
  from e n have x0: "0 \<le> ?x" by simp
  from e n have "effectiveAngle t * ?n < 360 * ?n" by simp
  then have x1: "?x < ?n" by simp
  from x0 show k0: "0 \<le> \<lfloor>?x\<rfloor>" by simp
  from x1 have "\<lfloor>?x\<rfloor> < \<lceil>?n\<rceil>" by (simp add: floor_less_iff less_ceiling_iff)
  then show k1: "\<lfloor>?x\<rfloor> < int (length outs)" by simp
  from k0 k1 have "js_rem (of_int \<lfloor>?x\<rfloor>) ?n = of_int \<lfloor>?x\<rfloor>"
    by (intro js_rem_id) simp_all
  moreover have "winningIndex outs t = js_rem (of_int \<lfloor>?x\<rfloor>) ?n"
    by (simp add: winningIndex_def Math_floor_def Let_def effectiveAngle_def)
  ultimately show "winningIndex outs t = of_int \<lfloor>?x\<rfloor>"
    by simp
qed

lemma js_index_winningIndex:
  assumes "outs \<noteq> []"
  shows "js_index outs (winningIndex outs t) =
         Some (outs ! nat \<lfloor>effectiveAngle t * real (length outs) / 360\<rfloor>)"
    and "nat \<lfloor>effectiveAngle t * real (length outs) / 360\<rfloor> < length outs"
proof -
  note w = winningIndex_floor [OF assms, of t]
  from w(2) w(3) show "nat \<lfloor>effectiveAngle t * real (length outs) / 360\<rfloor> < length outs"
    by linarith
  from w(2) w(3) have "real_of_int \<lfloor>effectiveAngle t * real (length outs) / 360\<rfloor> < real (length outs)"
    by linarith
  with w(1) w(2) show "js_index outs (winningIndex outs t) =
         Some (outs ! nat \<lfloor>effectiveAngle t * real (length outs) / 360\<rfloor>)"
    by (simp add: js_index_def)
qed


lemma length_outcomes: "length (outcomes s) = 3" "outcomes s \<noteq> []"
  by (simp_all add: outcomes_def)

lemma winningIndex_outcomes:
  "winningIndex (outcomes s) t = of_int \<lfloor>effectiveAngle t / 120\<rfloor>"
  "0 \<le> \<lfloor>effectiveAngle t / 120\<rfloor>" "\<lfloor>effectiveAngle t / 120\<rfloor> < 3"
  using winningIndex_floor [OF length_outcomes(2), where t = t and s1 = s] by (simp_all add: length_outcomes)

lemma winner_handleDone:
  "winner (handleDone \<lparr>cl_targetRotation = t, cl_outcomes = outcomes s\<rparr> s') =
     Some (outcomes s ! nat \<lfloor>effectiveAngle t / 120\<rfloor>)"
  using js_index_winningIndex(1) [OF length_outcomes(2), where t = t and s1 = s]
  by (simp add: handleDone_def length_outcomes)

lemma normalizedRotation_shift:
  assumes "0 \<le> a" "a < 360"
  shows "normalizedRotation (360 * of_int q + a) = a"
proof -
  from assms have "\<lfloor>(360 * of_int q + a) / 360\<rfloor> = q"
    by (simp add: floor_eq_iff)
  then show ?thesis by (simp add: normalizedRotation_floor_mod)
qed

lemma winningIndex_boundary:
  "winningIndex (outcomes s) (360 * of_int q) = 0"
  "winningIndex (outcomes s) (360 * of_int q + 120) = 2"
  "winningIndex (outcomes s) (360 * of_int q + 240) = 1"
  using normalizedRotation_shift [of 0 q] normalizedRotation_shift [of 120 q]
    normalizedRotation_shift [of 240 q]
  by (simp_all add: winningIndex_outcomes(1) effectiveAngle_eq)

lemma segment_contains_pointer:
  "segment_start (outcomes s) (winningIndex (outcomes s) t) \<le> effectiveAngle t"
  "effectiveAngle t < segment_start (outcomes s) (winningIndex (outcomes s) t + 1)"
proof -
  have "of_int \<lfloor>effectiveAngle t / 120\<rfloor> \<le> effectiveAngle t / 120"
    "effectiveAngle t / 120 < of_int \<lfloor>effectiveAngle t / 120\<rfloor> + 1"
    by linarith+
  then have "of_int \<lfloor>effectiveAngle t / 120\<rfloor> * 120 \<le> effectiveAngle t"
    "effectiveAngle t < of_int \<lfloor>effectiveAngle t / 120\<rfloor> * 120 + 120"
    by linarith+
  then show "segment_start (outcomes s) (winningIndex (outcomes s) t) \<le> effectiveAngle t"
    "effectiveAngle t < segment_start (outcomes s) (winningIndex (outcomes s) t + 1)"
    by (simp_all only: winningIndex_outcomes(1) segment_start_def length_outcomes(1)) (simp_all add: algebra_simps)
qed


lemma normalizedRotation_examples:
  "normalizedRotation 0 = 0" "normalizedRotation 150 = 150" "normalizedRotation 2950 = 70"
  "normalizedRotation 120 = 120"
  using normalizedRotation_shift [of 0 0] normalizedRotation_shift [of 150 0]
    normalizedRotation_shift [of 70 8] normalizedRotation_shift [of 120 0]
  by simp_all

lemma floor_mod_3: "0 \<le> (k::int) \<Longrightarrow> k < 3 \<Longrightarrow> k mod 3 = k"
  by simp

text \<open>
  C1, as the code has it. For every target rotation \<open>t\<close> the index used by \<^verbatim>\<open>handleDone\<close> is
  \<open>floor((360 - ((t % 360) + 360) % 360) % 360 / 120) mod 3\<close>, and the stored winner is the
  element at that index of the list [team 1, draw, team 2]. The pointer's angle on the wheel
  (the effective angle) lies in the half-open span of the winning segment, so a boundary
  belongs to the segment that starts there. When the normalised rotation is a multiple of 120
  the winner is the segment starting at the effective angle \<open>(360 - normalised) % 360\<close>:
  normalised 0 gives index 0, normalised 120 gives index 2 and normalised 240 gives index 1.
  Target 0 gives index 0, target 150 index 1 and target 2950 index 2.
\<close>

theorem winning_index_formula:
  "winningIndex (outcomes s) t =
     of_int (\<lfloor>js_rem (360 - js_rem (js_rem t 360 + 360) 360) 360 / 120\<rfloor> mod 3)
   \<and> winner (handleDone \<lparr>cl_targetRotation = t, cl_outcomes = outcomes s\<rparr> s') =
       Some (outcomes s ! nat (\<lfloor>js_rem (360 - js_rem (js_rem t 360 + 360) 360) 360 / 120\<rfloor> mod 3))
   \<and> map type (outcomes s) = [T_team1, T_draw, T_team2]
   \<and> segment_start (outcomes s) (winningIndex (outcomes s) t) \<le> effectiveAngle t
   \<and> effectiveAngle t < segment_start (outcomes s) (winningIndex (outcomes s) t + 1)
   \<and> normalizedRotation (360 * of_int q) = 0
   \<and> winningIndex (outcomes s) (360 * of_int q) = 0
   \<and> normalizedRotation (360 * of_int q + 120) = 120
   \<and> winningIndex (outcomes s) (360 * of_int q + 120) = 2
   \<and> normalizedRotation (360 * of_int q + 240) = 240
   \<and> winningIndex (outcomes s) (360 * of_int q + 240) = 1
   \<and> winningIndex (outcomes s) 0 = 0
   \<and> winningIndex (outcomes s) 150 = 1
   \<and> winningIndex (outcomes s) 2950 = 2"
proof -
  let ?k = "\<lfloor>js_rem (360 - js_rem (js_rem t 360 + 360) 360) 360 / 120\<rfloor>"
  have k: "?k = \<lfloor>effectiveAngle t / 120\<rfloor>"
    by (simp add: effectiveAngle_def normalizedRotation_def)
  have m: "?k mod 3 = \<lfloor>effectiveAngle t / 120\<rfloor>"
    unfolding k using winningIndex_outcomes(2,3) [where t = t] by (rule floor_mod_3)
  have f1: "winningIndex (outcomes s) t = of_int (?k mod 3)"
    unfolding m by (rule winningIndex_outcomes(1))
  have f2: "winner (handleDone \<lparr>cl_targetRotation = t, cl_outcomes = outcomes s\<rparr> s') =
       Some (outcomes s ! nat (?k mod 3))"
    unfolding m by (rule winner_handleDone)
  have f3: "map type (outcomes s) = [T_team1, T_draw, T_team2]"
    by (simp add: outcomes_def)
  have f4: "normalizedRotation (360 * of_int q) = 0"
    "normalizedRotation (360 * of_int q + 120) = 120"
    "normalizedRotation (360 * of_int q + 240) = 240"
    using normalizedRotation_shift [of 0 q] normalizedRotation_shift [of 120 q]
      normalizedRotation_shift [of 240 q] by simp_all
  have f5: "winningIndex (outcomes s) 0 = 0" "winningIndex (outcomes s) 150 = 1"
    "winningIndex (outcomes s) 2950 = 2"
    by (simp_all add: winningIndex_outcomes(1) effectiveAngle_eq normalizedRotation_examples)
  show ?thesis
    using f1 f2 f3 f4 f5 segment_contains_pointer [where s = s and t = t]
      winningIndex_boundary [where s = s and q = q]
    by blast
qed

text \<open>
  C1 as stated fails at target rotation 120. The normalised rotation is 120, the boundary at
  which segment 1 (the draw) starts, yet the winner is segment 2 (team 2), which starts at
  240.
\<close>

theorem boundary_120_counterexample:
  "normalizedRotation 120 = 120
   \<and> segment_start (outcomes initial_state) 1 = normalizedRotation 120
   \<and> winningIndex (outcomes initial_state) 120 = 2
   \<and> segment_start (outcomes initial_state) (winningIndex (outcomes initial_state) 120) = 240
   \<and> segment_start (outcomes initial_state) (winningIndex (outcomes initial_state) 120)
       \<noteq> normalizedRotation 120
   \<and> winner (handleDone \<lparr>cl_targetRotation = 120, cl_outcomes = outcomes initial_state\<rparr>
         initial_state) = Some \<lparr>label = str ''Team 2'', type = T_team2\<rparr>"
proof -
  have i: "winningIndex (outcomes initial_state) 120 = 2"
    using winningIndex_boundary(2) [where s = initial_state and q = 0] by simp
  have e: "effectiveAngle 120 = 240"
    by (simp add: effectiveAngle_eq normalizedRotation_examples)
  have w: "winner (handleDone \<lparr>cl_targetRotation = 120, cl_outcomes = outcomes initial_state\<rparr>
         initial_state) = Some \<lparr>label = str ''Team 2'', type = T_team2\<rparr>"
    unfolding winner_handleDone e by (simp add: outcomes_def initial_state_def)
  show ?thesis
    using i w by (simp add: normalizedRotation_examples segment_start_def length_outcomes)
qed

text \<open>
  C2. For every target rotation the winning index is 0, 1 or 2, the read of the three-element
  list is within bounds, and the winner stored by \<^verbatim>\<open>handleDone\<close> is never null: it is one of
  the three outcomes of the render in which the spin started.
\<close>

theorem winning_index_in_bounds:
  "winningIndex (outcomes s) t \<in> {0, 1, 2}
   \<and> nat \<lfloor>winningIndex (outcomes s) t\<rfloor> < length (outcomes s)
   \<and> js_index (outcomes s) (winningIndex (outcomes s) t) \<noteq> None
   \<and> js_index (outcomes s) (winningIndex (outcomes s) t)
       \<in> {Some (outcomes s ! 0), Some (outcomes s ! 1), Some (outcomes s ! 2)}
   \<and> winner (handleDone \<lparr>cl_targetRotation = t, cl_outcomes = outcomes s\<rparr> s') \<noteq> None
   \<and> winner (handleDone \<lparr>cl_targetRotation = t, cl_outcomes = outcomes s\<rparr> s')
       \<in> {Some \<lparr>label = name (team1 s), type = T_team1\<rparr>,
          Some \<lparr>label = str ''DRAW'', type = T_draw\<rparr>,
          Some \<lparr>label = name (team2 s), type = T_team2\<rparr>}"
proof -
  let ?k = "\<lfloor>effectiveAngle t / 120\<rfloor>"
  have "0 \<le> ?k" "?k < 3" by (rule winningIndex_outcomes(2,3))+
  then have c: "?k = 0 \<or> ?k = 1 \<or> ?k = 2" by linarith
  have w: "winningIndex (outcomes s) t = of_int ?k" by (rule winningIndex_outcomes(1))
  have j: "js_index (outcomes s) (winningIndex (outcomes s) t) = Some (outcomes s ! nat ?k)"
    using js_index_winningIndex(1) [OF length_outcomes(2), where t = t and s1 = s]
    by (simp add: length_outcomes)
  have h: "winner (handleDone \<lparr>cl_targetRotation = t, cl_outcomes = outcomes s\<rparr> s') =
      Some (outcomes s ! nat ?k)" by (rule winner_handleDone)
  from c show ?thesis
  proof (elim disjE)
    assume "?k = 0" with w j h show ?thesis by (simp add: outcomes_def)
  next
    assume "?k = 1" with w j h show ?thesis by (simp add: outcomes_def)
  next
    assume "?k = 2" with w j h show ?thesis by (simp add: outcomes_def)
  qed
qed


section \<open>Rounding to a double\<close>































section \<open>Starting a spin\<close>



lemma spin_idle:
  "\<not> spinning s \<Longrightarrow> spin r1 r2 s =
     s\<lparr>spinning := True, winner := None, showResult := False,
       wheel_transform := targetRotation (rotation s) r1 r2,
       wheel_listeners := wheel_listeners s @
         [\<lparr>cl_targetRotation = targetRotation (rotation s) r1 r2, cl_outcomes = outcomes s\<rparr>]\<rparr>"
  by (simp add: spin_def Let_def)




text \<open>
  C5. While a spin is in progress another call of \<^verbatim>\<open>spin\<close> returns at once: the whole
  state, the wheel's node and the pending timers included, is unchanged. The spin button is
  disabled as well, so a click on it changes nothing either.
\<close>

theorem spin_while_spinning_noop:
  "spinning s \<Longrightarrow> spin r1 r2 s = s \<and> disable s \<and> step (ClickSpin r1 r2) s = s"
  by (simp add: spin_def disable_def)

theorem spin_while_spinning_noop_witness:
  "spinning (spin (1/2) (1/4) initial_state)
   \<and> spin (3/4) (1/8) (spin (1/2) (1/4) initial_state) = spin (1/2) (1/4) initial_state
   \<and> step (ClickSpin (3/4) (1/8)) (spin (1/2) (1/4) initial_state) = spin (1/2) (1/4) initial_state"
proof -
  have sp: "spinning (spin (1/2) (1/4) initial_state)"
    by (simp add: spin_def initial_state_def Let_def)
  from spin_while_spinning_noop [OF sp, of "3/4" "1/8"] sp show ?thesis by simp
qed

section \<open>The cumulative rotation\<close>








section \<open>The spin button\<close>

lemma trim_examples:
  "trim (str ''Lions'') = str ''Lions''" "trim (str ''Tigers'') = str ''Tigers''"
  "trim (str ''Team 1'') = str ''Team 1''" "trim (str ''Team 2'') = str ''Team 2''"
  "trim (str ''  '') = []"
  by (simp_all add: trim_def str_def is_js_whitespace_def)

lemma disable_iff:
  "disable s \<longleftrightarrow>
     spinning s \<or> \<not> name_ready (name (team1 s)) (str ''Team 1'')
     \<or> \<not> name_ready (name (team2 s)) (str ''Team 2'')"
  by (auto simp: disable_def name_ready_def str_def)

text \<open>
  C6. When the trimmed name of either team is empty or is its placeholder (\<open>Team 1\<close>,
  \<open>Team 2\<close>), the spin button is disabled and a click on it leaves the state unchanged,
  whatever the random draws. The guard is the button's \<^verbatim>\<open>disabled\<close> attribute; \<^verbatim>\<open>spin\<close>
  has no caller but the button. When no spin is in progress the button is enabled exactly
  when both names are ready; in general it is enabled exactly when in addition no spin is
  in progress.
\<close>

theorem spin_request_noop_without_names:
  "(\<not> name_ready (name (team1 s)) (str ''Team 1'') \<or> \<not> name_ready (name (team2 s)) (str ''Team 2'')
      \<longrightarrow> disable s \<and> step (ClickSpin r1 r2) s = s)
   \<and> (\<not> spinning s \<longrightarrow>
        (\<not> disable s \<longleftrightarrow>
           name_ready (name (team1 s)) (str ''Team 1'') \<and> name_ready (name (team2 s)) (str ''Team 2'')))
   \<and> (\<not> disable s \<longleftrightarrow>
        \<not> spinning s \<and> name_ready (name (team1 s)) (str ''Team 1'')
        \<and> name_ready (name (team2 s)) (str ''Team 2''))"
  by (auto simp: disable_iff)

theorem spin_request_noop_without_names_witness:
  "\<not> name_ready (name (team1 initial_state)) (str ''Team 1'')
   \<and> step (ClickSpin (1/2) (1/4)) initial_state = initial_state
   \<and> \<not> name_ready (str ''  '') (str ''Team 1'')
   \<and> step (ClickSpin (1/2) (1/4)) (initial_state\<lparr>team1 := \<lparr>name = str ''  '', color = str ''#4AA1F3''\<rparr>\<rparr>)
       = initial_state\<lparr>team1 := \<lparr>name = str ''  '', color = str ''#4AA1F3''\<rparr>\<rparr>
   \<and> \<not> spinning (initial_state\<lparr>team1 := \<lparr>name = str ''Lions'', color = str ''#4AA1F3''\<rparr>,
                               team2 := \<lparr>name = str ''Tigers'', color = str ''#C8102E''\<rparr>\<rparr>)
   \<and> \<not> disable (initial_state\<lparr>team1 := \<lparr>name = str ''Lions'', color = str ''#4AA1F3''\<rparr>,
                               team2 := \<lparr>name = str ''Tigers'', color = str ''#C8102E''\<rparr>\<rparr>)"
proof -
  have a: "\<not> name_ready (name (team1 initial_state)) (str ''Team 1'')"
    by (simp add: name_ready_def initial_state_def trim_examples)
  have b: "\<not> name_ready (str ''  '') (str ''Team 1'')"
    by (simp add: name_ready_def trim_examples)
  have c: "name_ready (str ''Lions'') (str ''Team 1'')" "name_ready (str ''Tigers'') (str ''Team 2'')"
    by (simp_all add: name_ready_def trim_examples) (simp_all add: str_def)
  show ?thesis
    using a b c
      spin_request_noop_without_names [of initial_state "1/2" "1/4"]
      spin_request_noop_without_names
        [of "initial_state\<lparr>team1 := \<lparr>name = str ''  '', color = str ''#4AA1F3''\<rparr>\<rparr>" "1/2" "1/4"]
      spin_request_noop_without_names
        [of "initial_state\<lparr>team1 := \<lparr>name = str ''Lions'', color = str ''#4AA1F3''\<rparr>,
                               team2 := \<lparr>name = str ''Tigers'', color = str ''#C8102E''\<rparr>\<rparr>" "1/2" "1/4"]
    by (simp add: initial_state_def)
qed

section \<open>Dismissing the result\<close>

lemma revealed_example_reachable:
  "run [SetTeam1Name (str ''Lions''), SetTeam2Name (str ''Tigers''), ClickSpin (1/2) (1/4),
        TransitionEnd, Timeout] initial_state = revealed_example"
  apply (simp add: run_def initial_state_def revealed_example_def disable_def trim_examples
    spin_def Let_def targetRotation_def fullSpins_def randomAngle_def Math_floor_def
    on_transitionend_def handleDone_def on_timeout_def outcomes_def
    winningIndex_def normalizedRotation_def js_rem_def js_trunc_def js_index_def)
  apply (simp add: str_def)
  done

text \<open>
  C9, as the code has it. In a state with a revealed result every way of dismissing it keeps
  the cumulative rotation and the wheel's transform. The reset behind the button
  \<open>SPIN AGAIN\<close> clears the winner and the reveal flag and returns to \<open>Idle\<close>, with both
  teams (names and colours), the wheel size, the listeners and the pending timers as before.
  The backdrop, the cross and \<open>Close\<close> clear the reveal flag only: the winner stays stored,
  so the state they lead to is not \<open>Idle\<close>.
\<close>

theorem dismiss_retains_wheel:
  assumes "resolved_revealed s"
  shows "step ClickSpinAgain s = reset s
     \<and> reset s = s\<lparr>winner := None, showResult := False\<rparr>
     \<and> idle (reset s)
     \<and> rotation (reset s) = rotation s
     \<and> wheel_transform (reset s) = wheel_transform s
     \<and> team1 (reset s) = team1 s \<and> team2 (reset s) = team2 s
     \<and> wheelSize (reset s) = wheelSize s
     \<and> wheel_listeners (reset s) = wheel_listeners s
     \<and> pending_timers (reset s) = pending_timers s
     \<and> step ClickDismiss s = s\<lparr>showResult := False\<rparr>
     \<and> \<not> showResult (step ClickDismiss s)
     \<and> winner (step ClickDismiss s) = winner s
     \<and> \<not> idle (step ClickDismiss s)
     \<and> rotation (step ClickDismiss s) = rotation s
     \<and> wheel_transform (step ClickDismiss s) = wheel_transform s"
  using assms by (simp add: resolved_revealed_def idle_def reset_def modal_rendered_def)

theorem dismiss_retains_wheel_witness:
  "resolved_revealed revealed_example
   \<and> step ClickSpinAgain revealed_example = revealed_example\<lparr>winner := None, showResult := False\<rparr>
   \<and> idle (reset revealed_example)
   \<and> rotation (reset revealed_example) = 2610
   \<and> step ClickDismiss revealed_example = revealed_example\<lparr>showResult := False\<rparr>
   \<and> rotation (step ClickDismiss revealed_example) = 2610"
proof -
  have r: "resolved_revealed revealed_example"
    by (simp add: resolved_revealed_def revealed_example_def)
  from dismiss_retains_wheel [OF r] r show ?thesis
    by (simp add: revealed_example_def reset_def modal_rendered_def idle_def)
qed

text \<open>
  C9 as stated fails for the button \<open>Close\<close>, the cross and the backdrop: from the revealed
  result of the run above they leave the winner stored, so the state is not \<open>Idle\<close>.
\<close>

theorem dismiss_keeps_outcome_counterexample:
  "resolved_revealed revealed_example
   \<and> winner (step ClickDismiss revealed_example) = Some \<lparr>label = str ''Tigers'', type = T_team2\<rparr>
   \<and> \<not> idle (step ClickDismiss revealed_example)"
  by (simp add: resolved_revealed_def revealed_example_def modal_rendered_def idle_def)

section \<open>The reveal flag\<close>

lemma winner_handleDone_nonempty:
  "cl_outcomes c \<noteq> [] \<Longrightarrow> winner (handleDone c s) \<noteq> None"
  using js_index_winningIndex(1) [of "cl_outcomes c" "cl_targetRotation c"]
  by (simp add: handleDone_def)

lemma reveal_inv_initial: "reveal_inv initial_state"
  by (simp add: reveal_inv_def initial_state_def)

lemma reveal_inv_spin:
  assumes "reveal_inv s" "pending_timers s = 0"
  shows "reveal_inv (step (ClickSpin r1 r2) s)"
proof (cases "disable s")
  case True
  with assms show ?thesis by simp
next
  case False
  then have n: "\<not> spinning s" by (simp add: disable_def)
  with assms(1) have l: "wheel_listeners s = []" by (auto simp: reveal_inv_def)
  from False have "step (ClickSpin r1 r2) s = spin r1 r2 s" by simp
  with assms(2) l show ?thesis
    by (simp add: spin_idle [OF n] reveal_inv_def length_outcomes)
qed

lemma reveal_inv_transitionend:
  assumes "reveal_inv s"
  shows "reveal_inv (on_transitionend s)"
proof (cases "wheel_listeners s = []")
  case True
  with assms show ?thesis by (simp add: on_transitionend_def)
next
  case False
  with assms obtain c where c: "wheel_listeners s = [c]" "cl_outcomes c \<noteq> []" "spinning s"
    by (auto simp: reveal_inv_def)
  from assms c(3) have q: "\<not> showResult s" "pending_timers s = 0"
    by (auto simp: reveal_inv_def)
  have e: "on_transitionend s = handleDone c s" by (simp add: on_transitionend_def c(1))
  have w: "winner (handleDone c s) \<noteq> None" using c(2) by (rule winner_handleDone_nonempty)
  have r: "\<not> showResult (handleDone c s)" "\<not> spinning (handleDone c s)"
    "pending_timers (handleDone c s) = 1" "wheel_listeners (handleDone c s) = []"
    using q c(1) by (simp_all add: handleDone_def)
  show ?thesis unfolding e using w r by (simp add: reveal_inv_def)
qed

lemma reveal_inv_timeout: "reveal_inv s \<Longrightarrow> reveal_inv (on_timeout s)"
  by (auto simp: reveal_inv_def on_timeout_def)

lemma reveal_inv_step:
  assumes "reveal_inv s" "case e of ClickSpin r1 r2 \<Rightarrow> pending_timers s = 0 | _ \<Rightarrow> True"
  shows "reveal_inv (step e s)"
proof (cases e)
  case (ClickSpin r1 r2)
  with assms(2) have "pending_timers s = 0" by simp
  with assms(1) show ?thesis unfolding ClickSpin by (rule reveal_inv_spin)
next
  case TransitionEnd
  with assms show ?thesis by (simp add: reveal_inv_transitionend)
next
  case Timeout
  with assms show ?thesis by (simp add: reveal_inv_timeout)
next
  case ClickDismiss
  with assms(1) show ?thesis by (auto simp: reveal_inv_def modal_rendered_def)
next
  case ClickSpinAgain
  with assms(1) show ?thesis by (auto simp: reveal_inv_def modal_rendered_def reset_def)
next
  case (Resize w)
  with assms(1) show ?thesis by (simp add: reveal_inv_def on_resize_def)
qed (use assms(1) in \<open>simp_all add: reveal_inv_def\<close>)

lemma reveal_inv_run:
  "reveal_inv s \<Longrightarrow> reveal_awaited evs s \<Longrightarrow> reveal_inv (run evs s)"
proof (induction evs arbitrary: s)
  case Nil
  then show ?case by (simp add: run_def)
next
  case (Cons e es)
  from Cons.prems have "reveal_inv (step e s)" by (intro reveal_inv_step) simp_all
  moreover from Cons.prems have "reveal_awaited es (step e s)" by simp
  ultimately have "reveal_inv (run es (step e s))" by (rule Cons.IH)
  then show ?case by (simp add: run_def)
qed

text \<open>
  C10, as the code has it. In every state reached from the initial one by events among which
  no click on the spin button comes while a reveal timer is pending, a true \<open>showResult\<close>
  comes with a winner. In every state whatsoever the result modal is rendered only with a
  winner, by its render guard. A spin that starts clears the winner and the reveal flag
  together; \<^verbatim>\<open>handleDone\<close> stores a winner, leaves the flag alone and schedules the reveal;
  the dismiss buttons clear the flag; reset clears both.
\<close>

theorem reveal_flag_needs_winner:
  assumes "reveal_awaited evs initial_state"
  shows "(showResult (run evs initial_state) \<longrightarrow> winner (run evs initial_state) \<noteq> None)
     \<and> (modal_rendered s \<longrightarrow> winner s \<noteq> None)
     \<and> (\<not> spinning s \<longrightarrow> winner (spin r1 r2 s) = None \<and> \<not> showResult (spin r1 r2 s))
     \<and> (cl_outcomes c \<noteq> [] \<longrightarrow>
          winner (handleDone c s) \<noteq> None
          \<and> showResult (handleDone c s) = showResult s
          \<and> pending_timers (handleDone c s) = Suc (pending_timers s))
     \<and> (modal_rendered s \<longrightarrow>
          \<not> showResult (step ClickDismiss s) \<and> winner (step ClickDismiss s) = winner s)
     \<and> (modal_rendered s \<longrightarrow>
          \<not> showResult (step ClickSpinAgain s) \<and> winner (step ClickSpinAgain s) = None)
     \<and> winner (reset s) = None \<and> \<not> showResult (reset s)"
proof -
  from reveal_inv_initial assms have "reveal_inv (run evs initial_state)"
    by (rule reveal_inv_run)
  then have a: "showResult (run evs initial_state) \<longrightarrow> winner (run evs initial_state) \<noteq> None"
    by (simp add: reveal_inv_def)
  have b: "\<not> spinning s \<longrightarrow> winner (spin r1 r2 s) = None \<and> \<not> showResult (spin r1 r2 s)"
    by (simp add: spin_def Let_def)
  have c: "cl_outcomes c \<noteq> [] \<longrightarrow>
          winner (handleDone c s) \<noteq> None
          \<and> showResult (handleDone c s) = showResult s
          \<and> pending_timers (handleDone c s) = Suc (pending_timers s)"
    using winner_handleDone_nonempty [of c s] by (simp add: handleDone_def)
  from a b c show ?thesis
    by (simp add: modal_rendered_def reset_def)
qed

lemma stale_reveal_trace:
  "run [SetTeam1Name (str ''Lions''), SetTeam2Name (str ''Tigers''), ClickSpin (1/2) (1/4),
        TransitionEnd, ClickSpin (1/2) (1/4), Timeout] initial_state =
   \<lparr>team1 = \<lparr>name = str ''Lions'', color = str ''#4AA1F3''\<rparr>,
    team2 = \<lparr>name = str ''Tigers'', color = str ''#C8102E''\<rparr>,
    spinning = True, rotation = 2610, winner = None, showResult = True, wheelSize = 380,
    wheel_transform = 5220,
    wheel_listeners = [\<lparr>cl_targetRotation = 5220,
      cl_outcomes = [\<lparr>label = str ''Lions'', type = T_team1\<rparr>,
                     \<lparr>label = str ''DRAW'', type = T_draw\<rparr>,
                     \<lparr>label = str ''Tigers'', type = T_team2\<rparr>]\<rparr>],
    pending_timers = 0\<rparr>"
  apply (simp add: run_def initial_state_def disable_def trim_examples
    spin_def Let_def targetRotation_def fullSpins_def randomAngle_def Math_floor_def
    on_transitionend_def handleDone_def on_timeout_def outcomes_def)
  apply (simp add: str_def)
  done

text \<open>
  C10 as stated fails. Name both teams, spin, let the wheel stop, click the spin button again
  before the 250 ms reveal timer of the first spin has run, then let that timer run: the
  second spin has cleared the winner, and the stale timer sets \<open>showResult\<close>.
\<close>

theorem reveal_without_winner_counterexample:
  "showResult (run [SetTeam1Name (str ''Lions''), SetTeam2Name (str ''Tigers''),
        ClickSpin (1/2) (1/4), TransitionEnd, ClickSpin (1/2) (1/4), Timeout] initial_state)
   \<and> winner (run [SetTeam1Name (str ''Lions''), SetTeam2Name (str ''Tigers''),
        ClickSpin (1/2) (1/4), TransitionEnd, ClickSpin (1/2) (1/4), Timeout] initial_state) = None"
  by (simp add: stale_reveal_trace)

theorem reveal_flag_needs_winner_witness:
  "reveal_awaited [SetTeam1Name (str ''Lions''), SetTeam2Name (str ''Tigers''),
        ClickSpin (1/2) (1/4), TransitionEnd, Timeout] initial_state
   \<and> showResult (run [SetTeam1Name (str ''Lions''), SetTeam2Name (str ''Tigers''),
        ClickSpin (1/2) (1/4), TransitionEnd, Timeout] initial_state)
   \<and> winner (run [SetTeam1Name (str ''Lions''), SetTeam2Name (str ''Tigers''),
        ClickSpin (1/2) (1/4), TransitionEnd, Timeout] initial_state) \<noteq> None
   \<and> modal_rendered revealed_example
   \<and> winner (step ClickSpinAgain revealed_example) = None"
proof -
  have a: "reveal_awaited [SetTeam1Name (str ''Lions''), SetTeam2Name (str ''Tigers''),
        ClickSpin (1/2) (1/4), TransitionEnd, Timeout] initial_state"
    by (simp add: initial_state_def)
  have m: "modal_rendered revealed_example"
    by (simp add: modal_rendered_def revealed_example_def)
  have s: "showResult revealed_example" by (simp add: revealed_example_def)
  from reveal_flag_needs_winner [OF a, of revealed_example] a m s show ?thesis
    by (simp add: revealed_example_reachable)
qed

end
